theory Spec2Isabelle
  imports Main "HOL-Library.Word" "HOL-Library.Sublist"
begin

section \<open>Data model\<close>

text \<open>
  A Go \<^verbatim>\<open>float64\<close> is carried as its 64-bit pattern. The server never computes with
  a sample: it only stores it and hands it back, so the pattern is all it needs. The zero
  value \<^verbatim>\<open>0.0\<close> of the type is the all-zero pattern. Where samples are written out
  below, small patterns tell them apart; which numbers they denote plays no role.
\<close>

type_synonym float64 = "64 word"

text \<open>\<^verbatim>\<open>type IQData struct { Time, Real, Imaginary float64 }\<close>\<close>

record IQData =
  Time :: float64
  Real :: float64
  Imaginary :: float64

text \<open>The zero value of the struct, which Go gives to a fresh element before decoding into it.\<close>

definition zeroIQData :: IQData where
  "zeroIQData = \<lparr>Time = 0, Real = 0, Imaginary = 0\<rparr>"

text \<open>\<^verbatim>\<open>const maxDataPoints = 1000\<close>\<close>

definition maxDataPoints :: nat where
  "maxDataPoints = 1000"

section \<open>Request bodies and their decoding\<close>

text \<open>
  A request body that holds a JSON value is its syntax tree. A number literal carries its
  conversion to \<^verbatim>\<open>float64\<close>, which is \<open>None\<close> when the literal is out of the range
  of the type (the conversion then fails). An object keeps its members in the order of the
  text, duplicates included.
\<close>

datatype json =
    JNull
  | JBool bool
  | JNumber "float64 option"
  | JString string
  | JArray "json list"
  | JObject "(string \<times> json) list"

datatype bindError = SyntaxError | UnmarshalTypeError

datatype field = FTime | FReal | FImaginary

text \<open>
  The struct tags \<^verbatim>\<open>json:"time"\<close>, \<^verbatim>\<open>json:"real"\<close>, \<^verbatim>\<open>json:"imaginary"\<close> name the keys.
  The decoder of \<^verbatim>\<open>encoding/json\<close> takes a key that equals a tag, or else one that
  equals it up to letter case; a key that matches no field is skipped.
\<close>

definition toLower :: "char \<Rightarrow> char" where
  "toLower c =
     (case map_of (zip ''ABCDEFGHIJKLMNOPQRSTUVWXYZ'' ''abcdefghijklmnopqrstuvwxyz'') c of
        Some l \<Rightarrow> l
      | None \<Rightarrow> c)"

definition fieldOf :: "string \<Rightarrow> field option" where
  "fieldOf key =
     (let k = map toLower key in
      if k = ''time'' then Some FTime
      else if k = ''real'' then Some FReal
      else if k = ''imaginary'' then Some FImaginary
      else None)"

fun getField :: "field \<Rightarrow> IQData \<Rightarrow> float64" where
  "getField FTime d = Time d"
| "getField FReal d = Real d"
| "getField FImaginary d = Imaginary d"

fun setField :: "field \<Rightarrow> float64 \<Rightarrow> IQData \<Rightarrow> IQData" where
  "setField FTime x d = d\<lparr>Time := x\<rparr>"
| "setField FReal x d = d\<lparr>Real := x\<rparr>"
| "setField FImaginary x d = d\<lparr>Imaginary := x\<rparr>"

text \<open>
  Decoding a JSON value into a \<^verbatim>\<open>float64\<close> that holds \<open>old\<close>: \<^verbatim>\<open>null\<close> leaves the
  value as it is, a number in range replaces it, anything else is a type error.
\<close>

fun decodeFloat :: "json \<Rightarrow> float64 \<Rightarrow> bindError + float64" where
  "decodeFloat JNull old = Inr old"
| "decodeFloat (JNumber (Some x)) old = Inr x"
| "decodeFloat _ old = Inl UnmarshalTypeError"

text \<open>The members of an object, in order, into a struct: a later duplicate overwrites.\<close>

fun decodeMembers :: "(string \<times> json) list \<Rightarrow> IQData \<Rightarrow> bindError + IQData" where
  "decodeMembers [] d = Inr d"
| "decodeMembers ((k, v) # kvs) d =
     (case fieldOf k of
        None \<Rightarrow> decodeMembers kvs d
      | Some f \<Rightarrow>
          (case decodeFloat v (getField f d) of
             Inl e \<Rightarrow> Inl e
           | Inr x \<Rightarrow> decodeMembers kvs (setField f x d)))"

text \<open>
  One array element into a fresh struct: \<^verbatim>\<open>null\<close> leaves the zero value, an object
  fills the fields it names, anything else is a type error.
\<close>

fun decodeIQData :: "json \<Rightarrow> bindError + IQData" where
  "decodeIQData JNull = Inr zeroIQData"
| "decodeIQData (JObject kvs) = decodeMembers kvs zeroIQData"
| "decodeIQData _ = Inl UnmarshalTypeError"

fun decodeSlice :: "json list \<Rightarrow> bindError + IQData list" where
  "decodeSlice [] = Inr []"
| "decodeSlice (v # vs) =
     (case decodeIQData v of
        Inl e \<Rightarrow> Inl e
      | Inr d \<Rightarrow> (case decodeSlice vs of Inl e \<Rightarrow> Inl e | Inr ds \<Rightarrow> Inr (d # ds)))"

text \<open>
  A JSON value into \<^verbatim>\<open>var newData []IQData\<close>: \<^verbatim>\<open>null\<close> leaves the slice \<^verbatim>\<open>nil\<close>, of
  length 0, without an error; an array is decoded element by element; any other value is a
  type error.
\<close>

fun decodeValue :: "json \<Rightarrow> bindError + IQData list" where
  "decodeValue JNull = Inr []"
| "decodeValue (JArray vs) = decodeSlice vs"
| "decodeValue _ = Inl UnmarshalTypeError"

text \<open>
  The scanner of \<^verbatim>\<open>encoding/json\<close> reads the whole value before any of it is decoded,
  and counts the arrays and objects that are open: each \<^verbatim>\<open>[\<close> and \<^verbatim>\<open>{\<close> opens a level,
  the empty array and the empty object too. With more than \<^verbatim>\<open>maxNestingDepth = 10000\<close>
  levels open it fails with the syntax error \<^verbatim>\<open>exceeded max depth\<close>, wherever the deep
  value sits, also under a key that the decoder would skip.
\<close>

fun depth :: "json \<Rightarrow> nat" where
  "depth (JArray vs) = Suc (foldr max (map depth vs) 0)"
| "depth (JObject kvs) = Suc (foldr max (map (\<lambda>kv. depth (snd kv)) kvs) 0)"
| "depth _ = 0"

definition maxNestingDepth :: nat where
  "maxNestingDepth = 10000"

text \<open>
  \<^verbatim>\<open>c.ShouldBindJSON(&newData)\<close>. The body is \<open>None\<close> when it does not start with a
  well-formed JSON value (this includes the empty body). A value nested too deeply is a
  syntax error; any other value is decoded. The struct has no \<^verbatim>\<open>binding\<close> tag, so the
  validation after decoding accepts every decoded slice.
\<close>

fun ShouldBindJSON :: "json option \<Rightarrow> bindError + IQData list" where
  "ShouldBindJSON None = Inl SyntaxError"
| "ShouldBindJSON (Some v) =
     (if maxNestingDepth < depth v then Inl SyntaxError else decodeValue v)"

section \<open>The server\<close>

text \<open>
  A request is its method, the path of its request target and its body. The path of the
  target \<^verbatim>\<open>*\<close> (the asterisk form, which asks about the server as a whole) is \<^verbatim>\<open>*\<close>;
  every other path starts with a slash or is empty. The query of the target, which no
  handler reads, is left out.
\<close>

record request =
  reqMethod :: string
  reqPath :: string
  reqBody :: "json option"

text \<open>
  What a handler writes as the body of the response: nothing, a \<^verbatim>\<open>gin.H\<close> map of
  strings rendered as a JSON object, a slice of samples rendered as a JSON array, the
  router's own page for a request that matches no route, or the short HTML page with a
  link that goes with a redirect.
\<close>

datatype respBody =
    NoBody
  | JSONMap "(string \<times> string) list"
  | JSONSamples "IQData list"
  | NotFoundPage
  | RedirectPage

text \<open>
  The state a handler works on: the response writer of the request's context (status,
  header, body) and the global \<^verbatim>\<open>iqStore\<close>.
\<close>

record state =
  respStatus :: nat
  respHeader :: "string \<rightharpoonup> string"
  respBody :: respBody
  iqStore :: "IQData list"

type_synonym handler = "request \<Rightarrow> state \<Rightarrow> state"

text \<open>\<^verbatim>\<open>c.Writer.Header().Set(k, v)\<close>: the value replaces what the key held.\<close>

definition headerSet :: "string \<Rightarrow> string \<Rightarrow> state \<Rightarrow> state" where
  "headerSet k v s = s\<lparr>respHeader := (respHeader s)(k \<mapsto> v)\<rparr>"

text \<open>
  \<^verbatim>\<open>c.AbortWithStatus(code)\<close>: the status is written with an empty body, and the
  handlers that are still pending are not run. The pending handlers are the \<open>next\<close> of
  \<open>cors\<close> below, so that aborting is returning without calling it.
\<close>

definition abortWithStatus :: "nat \<Rightarrow> state \<Rightarrow> state" where
  "abortWithStatus code s = s\<lparr>respStatus := code\<rparr>"

text \<open>
  \<^verbatim>\<open>c.JSON(code, obj)\<close>: the status, the content type (unless the header has one) and the
  rendered object.
\<close>

definition ctxJSON :: "nat \<Rightarrow> respBody \<Rightarrow> state \<Rightarrow> state" where
  "ctxJSON code obj s =
     s\<lparr>respStatus := code,
       respHeader :=
         (case respHeader s ''Content-Type'' of
            None \<Rightarrow> (respHeader s)(''Content-Type'' \<mapsto> ''application/json; charset=utf-8'')
          | Some _ \<Rightarrow> respHeader s),
       respBody := obj\<rparr>"

text \<open>The middleware installed with \<^verbatim>\<open>r.Use\<close>; \<^verbatim>\<open>c.Next()\<close> runs the handlers after it.\<close>

definition cors :: "handler \<Rightarrow> handler" where
  "cors next req s =
     (let s1 = headerSet ''Access-Control-Allow-Origin'' ''http://localhost:5173'' s;
          s2 = headerSet ''Access-Control-Allow-Origin'' ''*'' s1;
          s3 = headerSet ''Access-Control-Allow-Methods'' ''POST, GET, OPTIONS'' s2;
          s4 = headerSet ''Access-Control-Allow-Headers'' ''Content-Type, Authorization'' s3;
          s5 = headerSet ''Access-Control-Allow-Credentials'' ''true'' s4
      in if reqMethod req = ''OPTIONS'' then abortWithStatus 204 s5
         else next req s5)"

text \<open>The handler of \<^verbatim>\<open>r.POST("/webhook", ...)\<close>.\<close>

definition webhook :: handler where
  "webhook req s =
     (case ShouldBindJSON (reqBody req) of
        Inl err \<Rightarrow> ctxJSON 400 (JSONMap [(''error'', ''Invalid JSON format'')]) s
      | Inr newData \<Rightarrow>
          (let s1 = s\<lparr>iqStore := iqStore s @ newData\<rparr>;
               s2 = (if length (iqStore s1) > maxDataPoints
                     then s1\<lparr>iqStore := drop (length (iqStore s1) - maxDataPoints) (iqStore s1)\<rparr>
                     else s1)
           in ctxJSON 200 (JSONMap [(''status'', ''received'')]) s2))"

text \<open>The handler of \<^verbatim>\<open>r.GET("/api/iq-data", ...)\<close>.\<close>

definition iqData :: handler where
  "iqData req s = ctxJSON 200 (JSONSamples (iqStore s)) s"

text \<open>
  What the router does with a request that matches neither route, after the middleware:
  status 404 and its own plain-text page.
\<close>

definition noRoute :: handler where
  "noRoute req s =
     s\<lparr>respStatus := 404,
       respHeader := (respHeader s)(''Content-Type'' \<mapsto> ''text/plain''),
       respBody := NotFoundPage\<rparr>"

text \<open>
  The router's redirect (\<^verbatim>\<open>RedirectTrailingSlash\<close>, on by default) for a path that is a
  route of the request's method followed by one slash. It answers at once, before any
  handler or middleware of the route runs: status 301 with the HTML page for a
  \<^verbatim>\<open>GET\<close>, status 307 without a body for any other method, and the route as
  \<^verbatim>\<open>Location\<close>.
\<close>

definition redirectTrailingSlash :: "string \<Rightarrow> handler" where
  "redirectTrailingSlash target req s =
     (if reqMethod req = ''GET''
      then s\<lparr>respStatus := 301,
             respHeader := (respHeader s)(''Location'' \<mapsto> target,
                                          ''Content-Type'' \<mapsto> ''text/html; charset=utf-8''),
             respBody := RedirectPage\<rparr>
      else s\<lparr>respStatus := 307,
             respHeader := (respHeader s)(''Location'' \<mapsto> target)\<rparr>)"

text \<open>
  The router with the two routes of \<^verbatim>\<open>main\<close>. The middleware is part of the chain of
  each route and of the chain for a request that matches none; there is a tree of routes
  for \<^verbatim>\<open>POST\<close> and one for \<^verbatim>\<open>GET\<close> only, so that a request with any other method
  matches none.
\<close>

definition handleHTTPRequest :: handler where
  "handleHTTPRequest req s =
     (if reqMethod req = ''POST'' \<and> reqPath req = ''/webhook'' then cors webhook req s
      else if reqMethod req = ''POST'' \<and> reqPath req = ''/webhook/''
        then redirectTrailingSlash ''/webhook'' req s
      else if reqMethod req = ''GET'' \<and> reqPath req = ''/api/iq-data'' then cors iqData req s
      else if reqMethod req = ''GET'' \<and> reqPath req = ''/api/iq-data/''
        then redirectTrailingSlash ''/api/iq-data'' req s
      else cors noRoute req s)"

text \<open>
  The answer of \<^verbatim>\<open>net/http\<close> itself to \<^verbatim>\<open>OPTIONS *\<close>: status 200 with
  \<^verbatim>\<open>Content-Length: 0\<close> and no body. The server that \<^verbatim>\<open>r.Run\<close> starts gives this
  answer without calling the router, so that neither the middleware nor a handler runs.
\<close>

definition globalOptionsHandler :: "state \<Rightarrow> state" where
  "globalOptionsHandler s = headerSet ''Content-Length'' ''0'' s"

text \<open>
  One request against the store \<open>st\<close>: a fresh response writer (status 200, no header, no
  body), then the server's own answer to \<^verbatim>\<open>OPTIONS *\<close> or else the router. The result
  holds the response and the store the request leaves behind.
\<close>

definition serveHTTP :: "IQData list \<Rightarrow> request \<Rightarrow> state" where
  "serveHTTP st req =
     (let s = \<lparr>respStatus = 200, respHeader = Map.empty, respBody = NoBody, iqStore = st\<rparr>
      in if reqMethod req = ''OPTIONS'' \<and> reqPath req = ''*'' then globalOptionsHandler s
         else handleHTTPRequest req s)"

text \<open>
  Requests served one after the other: the states after each of them, and the store after
  all of them. The process starts with \<^verbatim>\<open>var iqStore = []IQData{}\<close>, the empty store.
\<close>

fun serveAll :: "IQData list \<Rightarrow> request list \<Rightarrow> state list" where
  "serveAll st [] = []"
| "serveAll st (r # rs) = serveHTTP st r # serveAll (iqStore (serveHTTP st r)) rs"

fun storeAfter :: "IQData list \<Rightarrow> request list \<Rightarrow> IQData list" where
  "storeAfter st [] = st"
| "storeAfter st (r # rs) = storeAfter (iqStore (serveHTTP st r)) rs"

text \<open>The two requests the clients send.\<close>

definition postWebhook :: "json option \<Rightarrow> request" where
  "postWebhook b = \<lparr>reqMethod = ''POST'', reqPath = ''/webhook'', reqBody = b\<rparr>"

definition getIQData :: request where
  "getIQData = \<lparr>reqMethod = ''GET'', reqPath = ''/api/iq-data'', reqBody = None\<rparr>"

text \<open>
  The samples a request hands to the store: the decoded batch of a \<^verbatim>\<open>POST /webhook\<close>
  whose body binds, and nothing for every other request.
\<close>

definition accepted :: "request \<Rightarrow> IQData list" where
  "accepted req =
     (if reqMethod req = ''POST'' \<and> reqPath req = ''/webhook''
      then (case ShouldBindJSON (reqBody req) of Inl err \<Rightarrow> [] | Inr newData \<Rightarrow> newData)
      else [])"

text \<open>
  Three predicates on JSON values, to speak about array elements with absent fields.
  \<open>isNumber\<close>: a number literal in the range of \<^verbatim>\<open>float64\<close>. \<open>sampleObject\<close>: an
  object in which every member that names a field of the struct holds such a number
  (members that name no field are free). \<open>mentions f\<close>: the object has a member that
  names the field \<open>f\<close>.
\<close>

fun isNumber :: "json \<Rightarrow> bool" where
  "isNumber (JNumber (Some x)) = True"
| "isNumber _ = False"

fun sampleObject :: "json \<Rightarrow> bool" where
  "sampleObject (JObject kvs) = list_all (\<lambda>kv. fieldOf (fst kv) = None \<or> isNumber (snd kv)) kvs"
| "sampleObject _ = False"

fun mentions :: "field \<Rightarrow> json \<Rightarrow> bool" where
  "mentions f (JObject kvs) = (Some f \<in> set (map (\<lambda>kv. fieldOf (fst kv)) kvs))"
| "mentions f _ = False"

text \<open>Arrays inside arrays: \<open>nest n\<close> is \<^verbatim>\<open>[[...[]...]]\<close> with \<open>n + 1\<close> pairs of brackets.\<close>

fun nest :: "nat \<Rightarrow> json" where
  "nest 0 = JArray []"
| "nest (Suc n) = JArray [nest n]"

section \<open>Nesting depth\<close>

lemma maxNestingDepth_numeral [simp]: "maxNestingDepth = 10000"
  by (simp add: maxNestingDepth_def)

lemma foldr_max_map_le:
  "(\<And>x. x \<in> set xs \<Longrightarrow> g x \<le> (n::nat)) \<Longrightarrow> foldr max (map g xs) 0 \<le> n"
  by (induction xs) simp_all

lemma depth_JArray_map_le:
  "(\<And>x. x \<in> set xs \<Longrightarrow> depth (f x) \<le> n) \<Longrightarrow> depth (JArray (map f xs)) \<le> Suc n"
  using foldr_max_map_le [of xs "\<lambda>x. depth (f x)" n] by (simp add: comp_def)

lemma depth_nest: "depth (nest n) = Suc n"
  by (induction n) simp_all

lemma ShouldBindJSON_shallow:
  "depth v \<le> maxNestingDepth \<Longrightarrow> ShouldBindJSON (Some v) = decodeValue v"
  by simp

section \<open>What one request does to the store\<close>

lemma iqStore_headerSet: "iqStore (headerSet k v s) = iqStore s"
  by (simp add: headerSet_def)

lemma iqStore_ctxJSON: "iqStore (ctxJSON code obj s) = iqStore s"
  by (simp add: ctxJSON_def)

lemma iqStore_cors:
  "iqStore (cors next req s) =
     (if reqMethod req = ''OPTIONS'' then iqStore s
      else iqStore (next req
        (headerSet ''Access-Control-Allow-Credentials'' ''true''
          (headerSet ''Access-Control-Allow-Headers'' ''Content-Type, Authorization''
            (headerSet ''Access-Control-Allow-Methods'' ''POST, GET, OPTIONS''
              (headerSet ''Access-Control-Allow-Origin'' ''*''
                (headerSet ''Access-Control-Allow-Origin'' ''http://localhost:5173'' s)))))))"
  by (simp add: cors_def Let_def abortWithStatus_def iqStore_headerSet)

lemma iqStore_webhook:
  "iqStore (webhook req s) =
     (case ShouldBindJSON (reqBody req) of
        Inl err \<Rightarrow> iqStore s
      | Inr newData \<Rightarrow>
          drop (length (iqStore s @ newData) - maxDataPoints) (iqStore s @ newData))"
  by (simp add: webhook_def Let_def iqStore_ctxJSON split: sum.splits)

lemma iqStore_iqData: "iqStore (iqData req s) = iqStore s"
  by (simp add: iqData_def iqStore_ctxJSON)

lemma iqStore_noRoute: "iqStore (noRoute req s) = iqStore s"
  by (simp add: noRoute_def)

lemma iqStore_serveHTTP:
  "iqStore (serveHTTP st req) =
     (if reqMethod req = ''POST'' \<and> reqPath req = ''/webhook''
      then (case ShouldBindJSON (reqBody req) of
              Inl err \<Rightarrow> st
            | Inr newData \<Rightarrow> drop (length (st @ newData) - maxDataPoints) (st @ newData))
      else st)"
  by (simp add: serveHTTP_def Let_def handleHTTPRequest_def globalOptionsHandler_def
      redirectTrailingSlash_def iqStore_cors iqStore_webhook iqStore_iqData
      iqStore_noRoute iqStore_headerSet split: sum.splits)

lemma length_iqStore_serveHTTP:
  "length st \<le> maxDataPoints \<Longrightarrow> length (iqStore (serveHTTP st req)) \<le> maxDataPoints"
  by (auto simp: iqStore_serveHTTP split: sum.splits)

lemma iqStore_serveHTTP_accepted:
  "length st \<le> maxDataPoints \<Longrightarrow>
   iqStore (serveHTTP st req) =
     drop (length (st @ accepted req) - maxDataPoints) (st @ accepted req)"
  by (simp add: iqStore_serveHTTP accepted_def split: sum.splits)

section \<open>Sequences of requests\<close>

lemma serveAll_bounded:
  "length st \<le> maxDataPoints \<Longrightarrow>
   \<forall>s \<in> set (serveAll st reqs). length (iqStore s) \<le> maxDataPoints"
proof (induction reqs arbitrary: st)
  case Nil
  then show ?case by simp
next
  case (Cons r rs)
  have "length (iqStore (serveHTTP st r)) \<le> maxDataPoints"
    using Cons.prems by (rule length_iqStore_serveHTTP)
  with Cons.IH show ?case by simp
qed

lemma drop_excess_append:
  "drop (length (drop (length xs - c) xs @ ys) - c) (drop (length xs - c) xs @ ys) =
   drop (length (xs @ ys) - c) (xs @ ys)"
proof (cases "length xs \<le> c")
  case True
  then show ?thesis by simp
next
  case False
  then have "length (drop (length xs - c) xs @ ys) - c = length ys" by simp
  moreover have "length (xs @ ys) - c = (length xs - c) + length ys" using False by simp
  moreover have "drop (length ys) (drop (length xs - c) xs @ ys) =
      drop (length xs - c + length ys) (xs @ ys)"
    by (simp add: add.commute)
  ultimately show ?thesis by simp
qed

lemma storeAfter_eq:
  "length st \<le> maxDataPoints \<Longrightarrow>
   storeAfter st reqs =
     drop (length (st @ concat (map accepted reqs)) - maxDataPoints)
       (st @ concat (map accepted reqs))"
proof (induction reqs arbitrary: st)
  case Nil
  then show ?case by simp
next
  case (Cons r rs)
  let ?st' = "iqStore (serveHTTP st r)"
  have b: "length ?st' \<le> maxDataPoints"
    using Cons.prems by (rule length_iqStore_serveHTTP)
  have e: "?st' = drop (length (st @ accepted r) - maxDataPoints) (st @ accepted r)"
    using Cons.prems by (rule iqStore_serveHTTP_accepted)
  have "storeAfter st (r # rs) = storeAfter ?st' rs" by simp
  also have "\<dots> = drop (length (?st' @ concat (map accepted rs)) - maxDataPoints)
       (?st' @ concat (map accepted rs))"
    using b by (rule Cons.IH)
  also have "\<dots> = drop (length ((st @ accepted r) @ concat (map accepted rs)) - maxDataPoints)
       ((st @ accepted r) @ concat (map accepted rs))"
    unfolding e by (rule drop_excess_append)
  finally show ?case by simp
qed

section \<open>The response to a request\<close>

lemma postWebhook_sel [simp]:
  "reqMethod (postWebhook b) = ''POST''" "reqPath (postWebhook b) = ''/webhook''"
  "reqBody (postWebhook b) = b"
  by (simp_all add: postWebhook_def)

lemma respBody_serveHTTP_get:
  "reqMethod req = ''GET'' \<Longrightarrow> reqPath req = ''/api/iq-data'' \<Longrightarrow>
   respBody (serveHTTP st req) = JSONSamples st"
  by (simp add: serveHTTP_def handleHTTPRequest_def cors_def iqData_def ctxJSON_def
      headerSet_def Let_def)

lemma respStatus_serveHTTP_get:
  "reqMethod req = ''GET'' \<Longrightarrow> reqPath req = ''/api/iq-data'' \<Longrightarrow>
   respStatus (serveHTTP st req) = 200"
  by (simp add: serveHTTP_def handleHTTPRequest_def cors_def iqData_def ctxJSON_def
      headerSet_def Let_def)

lemma respStatus_serveHTTP_post:
  "respStatus (serveHTTP st (postWebhook b)) =
     (case ShouldBindJSON b of Inl err \<Rightarrow> 400 | Inr newData \<Rightarrow> 200)"
  by (simp add: serveHTTP_def handleHTTPRequest_def cors_def webhook_def ctxJSON_def
      headerSet_def Let_def split: sum.splits)

lemma respBody_serveHTTP_post:
  "respBody (serveHTTP st (postWebhook b)) =
     (case ShouldBindJSON b of
        Inl err \<Rightarrow> JSONMap [(''error'', ''Invalid JSON format'')]
      | Inr newData \<Rightarrow> JSONMap [(''status'', ''received'')])"
  by (simp add: serveHTTP_def handleHTTPRequest_def cors_def webhook_def ctxJSON_def
      headerSet_def Let_def split: sum.splits)

lemma iqStore_serveHTTP_post:
  "iqStore (serveHTTP st (postWebhook b)) =
     (case ShouldBindJSON b of
        Inl err \<Rightarrow> st
      | Inr newData \<Rightarrow> drop (length (st @ newData) - maxDataPoints) (st @ newData))"
  by (simp add: iqStore_serveHTTP)

lemma iqStore_serveHTTP_get: "iqStore (serveHTTP st getIQData) = st"
  by (simp add: iqStore_serveHTTP getIQData_def)

lemma decodeSlice_map:
  "(\<And>x. x \<in> set xs \<Longrightarrow> decodeIQData (f x) = Inr (g x)) \<Longrightarrow>
   decodeSlice (map f xs) = Inr (map g xs)"
  by (induction xs) simp_all

lemma accepted_postWebhook:
  "ShouldBindJSON b = Inr batch \<Longrightarrow> accepted (postWebhook b) = batch"
  by (simp add: accepted_def)

lemma suffix_drop_parts:
  "\<exists>p s1 m s2 q. drop k (P @ B1 @ M @ B2 @ Q) = p @ s1 @ m @ s2 @ q
     \<and> suffix p P \<and> suffix s1 B1 \<and> suffix m M \<and> suffix s2 B2 \<and> suffix q Q"
proof -
  have "drop k (P @ B1 @ M @ B2 @ Q) =
      drop k P @ drop (k - length P) B1 @ drop (k - length P - length B1) M
        @ drop (k - length P - length B1 - length M) B2
        @ drop (k - length P - length B1 - length M - length B2) Q"
    by simp
  moreover have "suffix (drop n xs) xs" for n and xs :: "'a list"
    by (rule suffix_drop)
  ultimately show ?thesis by blast
qed

section \<open>Decoding objects with absent fields\<close>

lemma getField_setField:
  "getField f (setField g x d) = (if f = g then x else getField f d)"
  by (cases f; cases g) simp_all

lemma decodeFloat_isNumber: "isNumber v \<Longrightarrow> \<exists>x. decodeFloat v old = Inr x"
  by (cases "(v, old)" rule: decodeFloat.cases) simp_all

lemma decodeMembers_ok:
  "list_all (\<lambda>kv. fieldOf (fst kv) = None \<or> isNumber (snd kv)) kvs \<Longrightarrow>
   \<exists>d'. decodeMembers kvs d = Inr d'
      \<and> (\<forall>f. Some f \<notin> set (map (\<lambda>kv. fieldOf (fst kv)) kvs) \<longrightarrow> getField f d' = getField f d)"
proof (induction kvs arbitrary: d)
  case Nil
  then show ?case by simp
next
  case (Cons kv kvs)
  obtain k v where kv: "kv = (k, v)" by (cases kv)
  from Cons.prems have rest: "list_all (\<lambda>kv. fieldOf (fst kv) = None \<or> isNumber (snd kv)) kvs"
    by simp
  show ?case
  proof (cases "fieldOf k")
    case None
    with Cons.IH [OF rest, of d] kv show ?thesis by auto
  next
    case (Some g)
    with Cons.prems kv have "isNumber v" by simp
    then obtain x where x: "decodeFloat v (getField g d) = Inr x"
      using decodeFloat_isNumber by blast
    from Cons.IH [OF rest, of "setField g x d"] obtain d' where
      d': "decodeMembers kvs (setField g x d) = Inr d'"
      "\<forall>f. Some f \<notin> set (map (\<lambda>kv. fieldOf (fst kv)) kvs) \<longrightarrow>
         getField f d' = getField f (setField g x d)"
      by blast
    have "decodeMembers (kv # kvs) d = Inr d'"
      using kv Some x d'(1) by simp
    moreover have "\<forall>f. Some f \<notin> set (map (\<lambda>kv. fieldOf (fst kv)) (kv # kvs)) \<longrightarrow>
        getField f d' = getField f d"
      using d'(2) kv Some by (auto simp: getField_setField)
    ultimately show ?thesis by blast
  qed
qed

lemma getField_zeroIQData: "getField f zeroIQData = 0"
  by (cases f) (simp_all add: zeroIQData_def)

lemma decodeIQData_ok:
  "sampleObject v \<Longrightarrow>
   \<exists>d. decodeIQData v = Inr d \<and> (\<forall>f. \<not> mentions f v \<longrightarrow> getField f d = 0)"
proof (cases v)
  case (JObject kvs)
  assume "sampleObject v"
  with JObject have "list_all (\<lambda>kv. fieldOf (fst kv) = None \<or> isNumber (snd kv)) kvs"
    by simp
  from decodeMembers_ok [OF this, of zeroIQData] JObject show ?thesis
    by (simp add: getField_zeroIQData)
qed simp_all

lemma decodeSlice_ok:
  "list_all sampleObject objs \<Longrightarrow>
   \<exists>batch. decodeSlice objs = Inr batch \<and> length batch = length objs
      \<and> (\<forall>i<length objs. \<forall>f. \<not> mentions f (objs ! i) \<longrightarrow> getField f (batch ! i) = 0)"
proof (induction objs)
  case Nil
  then show ?case by simp
next
  case (Cons v vs)
  from Cons.prems obtain d where d: "decodeIQData v = Inr d"
    "\<forall>f. \<not> mentions f v \<longrightarrow> getField f d = 0"
    using decodeIQData_ok [of v] by auto
  from Cons obtain ds where ds: "decodeSlice vs = Inr ds" "length ds = length vs"
    "\<forall>i<length vs. \<forall>f. \<not> mentions f (vs ! i) \<longrightarrow> getField f (ds ! i) = 0"
    by auto
  have "decodeSlice (v # vs) = Inr (d # ds)"
    using d(1) ds(1) by simp
  moreover have "length (d # ds) = length (v # vs)"
    using ds(2) by simp
  moreover have "\<forall>i<length (v # vs). \<forall>f. \<not> mentions f ((v # vs) ! i) \<longrightarrow>
      getField f ((d # ds) ! i) = 0"
    using d(2) ds(3) by (auto simp: nth_Cons split: nat.splits)
  ultimately show ?case by blast
qed

section \<open>Claims\<close>

text \<open>
  C1. Capacity invariant. Starting from the empty store of a fresh process, after each
  request of any sequence of requests the store holds at most 1000 samples. The requests
  are arbitrary: every sequence of \<^verbatim>\<open>POST /webhook\<close> requests, with bodies that bind
  or not, is among them.
\<close>

theorem capacity_invariant:
  "\<forall>s \<in> set (serveAll [] reqs). length (iqStore s) \<le> 1000"
  using serveAll_bounded [of "[]" reqs] by (simp add: maxDataPoints_def)

theorem capacity_invariant_witness:
  "length (iqStore (serveHTTP []
      (postWebhook (Some (JArray [JObject [(''time'', JNumber (Some 1))], JObject []]))))) \<le> 1000
   \<and> length (iqStore (serveHTTP
      (iqStore (serveHTTP []
        (postWebhook (Some (JArray [JObject [(''time'', JNumber (Some 1))], JObject []])))))
      (postWebhook (Some (JArray [JNull]))))) \<le> 1000"
  using capacity_invariant
    [of "[postWebhook (Some (JArray [JObject [(''time'', JNumber (Some 1))], JObject []])),
          postWebhook (Some (JArray [JNull]))]"]
  by simp

text \<open>
  C2. Eviction correctness. A batch of more than \<open>maxDataPoints\<close> samples posted to the
  empty store leaves exactly its last \<open>maxDataPoints\<close> samples, in their order, and that
  is what the next \<^verbatim>\<open>GET /api/iq-data\<close> returns.
\<close>

theorem eviction_correctness:
  assumes "ShouldBindJSON b = Inr batch" and "maxDataPoints < length batch"
  shows "iqStore (serveHTTP [] (postWebhook b)) = drop (length batch - maxDataPoints) batch
    \<and> respBody (serveHTTP (iqStore (serveHTTP [] (postWebhook b))) getIQData) =
        JSONSamples (drop (length batch - maxDataPoints) batch)
    \<and> length (drop (length batch - maxDataPoints) batch) = maxDataPoints"
proof -
  have "iqStore (serveHTTP [] (postWebhook b)) = drop (length batch - maxDataPoints) batch"
    using assms by (simp add: iqStore_serveHTTP_post)
  moreover have "respBody (serveHTTP st getIQData) = JSONSamples st" for st
    by (simp add: respBody_serveHTTP_get getIQData_def)
  moreover have "length (drop (length batch - maxDataPoints) batch) = maxDataPoints"
    using assms(2) by simp
  ultimately show ?thesis by simp
qed

theorem eviction_correctness_witness:
  "ShouldBindJSON (Some (JArray (map (\<lambda>i. JObject [(''time'', JNumber (Some (of_nat i)))]) [0..<1001])))
     = Inr (map (\<lambda>i. \<lparr>Time = of_nat i, Real = 0, Imaginary = 0\<rparr>) [0..<1001])
   \<and> maxDataPoints < length (map (\<lambda>i. \<lparr>Time = of_nat i, Real = 0, Imaginary = 0\<rparr>) [0..<1001])
   \<and> iqStore (serveHTTP []
        (postWebhook (Some (JArray (map (\<lambda>i. JObject [(''time'', JNumber (Some (of_nat i)))]) [0..<1001])))))
     = map (\<lambda>i. \<lparr>Time = of_nat i, Real = 0, Imaginary = 0\<rparr>) [1..<1001]"
proof -
  let ?b = "Some (JArray (map (\<lambda>i. JObject [(''time'', JNumber (Some (of_nat i)))]) [0..<1001]))"
  let ?batch = "map (\<lambda>i. \<lparr>Time = of_nat i, Real = 0, Imaginary = 0\<rparr>) [0..<1001]"
  have t: "fieldOf ''time'' = Some FTime"
    by (simp add: fieldOf_def toLower_def)
  have "depth (JArray (map (\<lambda>i. JObject [(''time'', JNumber (Some (of_nat i)))]) [0..<1001]))
      \<le> Suc 1"
    by (rule depth_JArray_map_le) simp
  then have "depth (JArray (map (\<lambda>i. JObject [(''time'', JNumber (Some (of_nat i)))]) [0..<1001]))
      \<le> maxNestingDepth"
    by simp
  then have h1: "ShouldBindJSON ?b = Inr ?batch"
    unfolding ShouldBindJSON_shallow [OF \<open>depth _ \<le> maxNestingDepth\<close>]
    by (simp add: decodeSlice_map t zeroIQData_def del: upt_Suc)
  have h2: "maxDataPoints < length ?batch"
    by (simp add: maxDataPoints_def)
  have "drop (length ?batch - maxDataPoints) ?batch =
      map (\<lambda>i. \<lparr>Time = of_nat i, Real = 0, Imaginary = 0\<rparr>) [1..<1001]"
    by (simp add: maxDataPoints_def drop_map del: upt_Suc)
  with eviction_correctness [OF h1 h2] h1 h2 show ?thesis by (simp del: upt_Suc)
qed

text \<open>
  C3. Order preservation. Let a \<^verbatim>\<open>POST /webhook\<close> that binds to \<open>B1\<close> be served before
  one that binds to \<open>B2\<close>, with any requests before, between and after them, starting
  from the empty store. Then the store, and the snapshot a \<^verbatim>\<open>GET /api/iq-data\<close> returns
  afterwards, is a tail \<open>drop k\<close> of all accepted samples in the order of their arrival.
  It splits into \<open>p @ s1 @ m @ s2 @ q\<close>, where \<open>s1\<close> is a tail of \<open>B1\<close> (its
  surviving samples, in their order) and \<open>s2\<close> a tail of \<open>B2\<close>, so that every survivor
  of \<open>B1\<close> comes before every survivor of \<open>B2\<close>.
\<close>

theorem order_preservation:
  assumes "ShouldBindJSON b1 = Inr B1" and "ShouldBindJSON b2 = Inr B2"
  shows "\<exists>k p s1 m s2 q.
      storeAfter [] (pre @ [postWebhook b1] @ mid @ [postWebhook b2] @ post) =
        drop k (concat (map accepted pre) @ B1 @ concat (map accepted mid) @ B2
                  @ concat (map accepted post))
    \<and> storeAfter [] (pre @ [postWebhook b1] @ mid @ [postWebhook b2] @ post) =
        p @ s1 @ m @ s2 @ q
    \<and> suffix p (concat (map accepted pre)) \<and> suffix s1 B1
    \<and> suffix m (concat (map accepted mid)) \<and> suffix s2 B2
    \<and> suffix q (concat (map accepted post))
    \<and> respBody (serveHTTP
          (storeAfter [] (pre @ [postWebhook b1] @ mid @ [postWebhook b2] @ post)) getIQData) =
        JSONSamples (p @ s1 @ m @ s2 @ q)"
proof -
  let ?reqs = "pre @ [postWebhook b1] @ mid @ [postWebhook b2] @ post"
  let ?all = "concat (map accepted pre) @ B1 @ concat (map accepted mid) @ B2
                  @ concat (map accepted post)"
  have c: "concat (map accepted ?reqs) = ?all"
    using assms by (simp add: accepted_postWebhook)
  have "storeAfter [] ?reqs = drop (length ([] @ concat (map accepted ?reqs)) - maxDataPoints)
       ([] @ concat (map accepted ?reqs))"
    by (rule storeAfter_eq) simp
  then have e: "storeAfter [] ?reqs = drop (length ?all - maxDataPoints) ?all"
    unfolding c by simp
  obtain p s1 m s2 q where d: "drop (length ?all - maxDataPoints) ?all = p @ s1 @ m @ s2 @ q"
    "suffix p (concat (map accepted pre))" "suffix s1 B1"
    "suffix m (concat (map accepted mid))" "suffix s2 B2"
    "suffix q (concat (map accepted post))"
    using suffix_drop_parts [of "length ?all - maxDataPoints" "concat (map accepted pre)" B1
        "concat (map accepted mid)" B2 "concat (map accepted post)"]
    by blast
  have g: "respBody (serveHTTP (storeAfter [] ?reqs) getIQData) = JSONSamples (p @ s1 @ m @ s2 @ q)"
    unfolding e d(1) by (simp add: respBody_serveHTTP_get getIQData_def)
  from e d g show ?thesis by metis
qed

theorem order_preservation_witness:
  "ShouldBindJSON (Some (JArray [JObject [(''time'', JNumber (Some 1))]])) =
     Inr [\<lparr>Time = 1, Real = 0, Imaginary = 0\<rparr>]
   \<and> ShouldBindJSON (Some (JArray [JObject [(''time'', JNumber (Some 2))],
                                      JObject [(''time'', JNumber (Some 3))]])) =
     Inr [\<lparr>Time = 2, Real = 0, Imaginary = 0\<rparr>, \<lparr>Time = 3, Real = 0, Imaginary = 0\<rparr>]
   \<and> (\<exists>k p s1 m s2 q.
      storeAfter []
        ([] @ [postWebhook (Some (JArray [JObject [(''time'', JNumber (Some 1))]]))]
         @ [getIQData]
         @ [postWebhook (Some (JArray [JObject [(''time'', JNumber (Some 2))],
                                       JObject [(''time'', JNumber (Some 3))]]))]
         @ []) =
        drop k (concat (map accepted []) @ [\<lparr>Time = 1, Real = 0, Imaginary = 0\<rparr>]
                  @ concat (map accepted [getIQData])
                  @ [\<lparr>Time = 2, Real = 0, Imaginary = 0\<rparr>, \<lparr>Time = 3, Real = 0, Imaginary = 0\<rparr>]
                  @ concat (map accepted []))
    \<and> storeAfter []
        ([] @ [postWebhook (Some (JArray [JObject [(''time'', JNumber (Some 1))]]))]
         @ [getIQData]
         @ [postWebhook (Some (JArray [JObject [(''time'', JNumber (Some 2))],
                                       JObject [(''time'', JNumber (Some 3))]]))]
         @ []) =
        p @ s1 @ m @ s2 @ q
    \<and> suffix p (concat (map accepted [])) \<and> suffix s1 [\<lparr>Time = 1, Real = 0, Imaginary = 0\<rparr>]
    \<and> suffix m (concat (map accepted [getIQData]))
    \<and> suffix s2 [\<lparr>Time = 2, Real = 0, Imaginary = 0\<rparr>, \<lparr>Time = 3, Real = 0, Imaginary = 0\<rparr>]
    \<and> suffix q (concat (map accepted []))
    \<and> respBody (serveHTTP
          (storeAfter []
            ([] @ [postWebhook (Some (JArray [JObject [(''time'', JNumber (Some 1))]]))]
             @ [getIQData]
             @ [postWebhook (Some (JArray [JObject [(''time'', JNumber (Some 2))],
                                           JObject [(''time'', JNumber (Some 3))]]))]
             @ [])) getIQData) =
        JSONSamples (p @ s1 @ m @ s2 @ q))"
proof -
  have t: "fieldOf ''time'' = Some FTime"
    by (simp add: fieldOf_def toLower_def)
  have h1: "ShouldBindJSON (Some (JArray [JObject [(''time'', JNumber (Some 1))]])) =
     Inr [\<lparr>Time = 1, Real = 0, Imaginary = 0\<rparr>]"
    by (simp add: t zeroIQData_def)
  have h2: "ShouldBindJSON (Some (JArray [JObject [(''time'', JNumber (Some 2))],
                                      JObject [(''time'', JNumber (Some 3))]])) =
     Inr [\<lparr>Time = 2, Real = 0, Imaginary = 0\<rparr>, \<lparr>Time = 3, Real = 0, Imaginary = 0\<rparr>]"
    by (simp add: t zeroIQData_def)
  from h1 h2 order_preservation [OF h1 h2, of "[]" "[getIQData]" "[]"]
  show ?thesis by (intro conjI)
qed

text \<open>
  C4. Malformed input. When the body of a \<^verbatim>\<open>POST /webhook\<close> does not bind to a slice of
  samples, the response has status 400 and body \<^verbatim>\<open>{"error": "Invalid JSON format"}\<close>, and
  the store is as it was. The body \<^verbatim>\<open>{"not": "an array"}\<close> is such a body: an object does
  not decode into a slice.
\<close>

theorem malformed_rejected:
  assumes "ShouldBindJSON b = Inl err"
  shows "respStatus (serveHTTP st (postWebhook b)) = 400
    \<and> respBody (serveHTTP st (postWebhook b)) = JSONMap [(''error'', ''Invalid JSON format'')]
    \<and> iqStore (serveHTTP st (postWebhook b)) = st"
  using assms
  by (simp add: respStatus_serveHTTP_post respBody_serveHTTP_post iqStore_serveHTTP_post)

theorem malformed_rejected_witness:
  "ShouldBindJSON (Some (JObject [(''not'', JString ''an array'')])) = Inl UnmarshalTypeError
   \<and> respStatus (serveHTTP [\<lparr>Time = 1, Real = 2, Imaginary = 3\<rparr>]
        (postWebhook (Some (JObject [(''not'', JString ''an array'')])))) = 400
   \<and> respBody (serveHTTP [\<lparr>Time = 1, Real = 2, Imaginary = 3\<rparr>]
        (postWebhook (Some (JObject [(''not'', JString ''an array'')])))) =
       JSONMap [(''error'', ''Invalid JSON format'')]
   \<and> iqStore (serveHTTP [\<lparr>Time = 1, Real = 2, Imaginary = 3\<rparr>]
        (postWebhook (Some (JObject [(''not'', JString ''an array'')])))) =
       [\<lparr>Time = 1, Real = 2, Imaginary = 3\<rparr>]"
proof -
  have h: "ShouldBindJSON (Some (JObject [(''not'', JString ''an array'')])) = Inl UnmarshalTypeError"
    by simp
  from malformed_rejected [OF h, of "[\<lparr>Time = 1, Real = 2, Imaginary = 3\<rparr>]"] h
  show ?thesis by simp
qed

text \<open>
  C5. All or nothing. For every \<^verbatim>\<open>POST /webhook\<close>: when the body binds to a batch, the
  response has status 200 and body \<^verbatim>\<open>{"status": "received"}\<close>, and the store becomes the
  old store followed by the whole batch, cut down to its last \<open>maxDataPoints\<close> samples;
  when the body does not bind, the status is 400 and the store is as it was. There is no
  third outcome, so no request leaves a proper part of its batch behind.
\<close>

theorem webhook_all_or_nothing:
  "(case ShouldBindJSON b of
      Inl err \<Rightarrow>
        respStatus (serveHTTP st (postWebhook b)) = 400
        \<and> iqStore (serveHTTP st (postWebhook b)) = st
    | Inr batch \<Rightarrow>
        respStatus (serveHTTP st (postWebhook b)) = 200
        \<and> respBody (serveHTTP st (postWebhook b)) = JSONMap [(''status'', ''received'')]
        \<and> iqStore (serveHTTP st (postWebhook b)) =
            drop (length (st @ batch) - maxDataPoints) (st @ batch))"
  by (simp add: respStatus_serveHTTP_post respBody_serveHTTP_post iqStore_serveHTTP_post
      split: sum.splits)

theorem webhook_all_or_nothing_witness:
  "respStatus (serveHTTP [\<lparr>Time = 1, Real = 2, Imaginary = 3\<rparr>]
      (postWebhook (Some (JArray [JObject [(''real'', JNumber (Some 4))], JObject []])))) = 200
   \<and> iqStore (serveHTTP [\<lparr>Time = 1, Real = 2, Imaginary = 3\<rparr>]
      (postWebhook (Some (JArray [JObject [(''real'', JNumber (Some 4))], JObject []])))) =
     [\<lparr>Time = 1, Real = 2, Imaginary = 3\<rparr>, \<lparr>Time = 0, Real = 4, Imaginary = 0\<rparr>,
      \<lparr>Time = 0, Real = 0, Imaginary = 0\<rparr>]
   \<and> respStatus (serveHTTP [\<lparr>Time = 1, Real = 2, Imaginary = 3\<rparr>]
      (postWebhook (Some (JArray [JObject [(''real'', JNumber (Some 4))], JString ''x''])))) = 400
   \<and> iqStore (serveHTTP [\<lparr>Time = 1, Real = 2, Imaginary = 3\<rparr>]
      (postWebhook (Some (JArray [JObject [(''real'', JNumber (Some 4))], JString ''x''])))) =
     [\<lparr>Time = 1, Real = 2, Imaginary = 3\<rparr>]"
proof -
  have r: "fieldOf ''real'' = Some FReal"
    by (simp add: fieldOf_def toLower_def)
  have ok: "ShouldBindJSON (Some (JArray [JObject [(''real'', JNumber (Some 4))], JObject []])) =
      Inr [\<lparr>Time = 0, Real = 4, Imaginary = 0\<rparr>, \<lparr>Time = 0, Real = 0, Imaginary = 0\<rparr>]"
    by (simp add: r zeroIQData_def)
  have bad: "ShouldBindJSON (Some (JArray [JObject [(''real'', JNumber (Some 4))], JString ''x''])) =
      Inl UnmarshalTypeError"
    by (simp add: r zeroIQData_def)
  from webhook_all_or_nothing
      [where b = "Some (JArray [JObject [(''real'', JNumber (Some 4))], JObject []])"
         and st = "[\<lparr>Time = 1, Real = 2, Imaginary = 3\<rparr>]"]
    webhook_all_or_nothing
      [where b = "Some (JArray [JObject [(''real'', JNumber (Some 4))], JString ''x''])"
         and st = "[\<lparr>Time = 1, Real = 2, Imaginary = 3\<rparr>]"]
  show ?thesis
    unfolding ok bad by (simp add: maxDataPoints_def)
qed

text \<open>
  C6. Query. A \<^verbatim>\<open>GET /api/iq-data\<close> answers with status 200 and the samples of the store
  in the order the store holds them, leaves the store as it was, and gives the same result
  when it is served again with nothing in between. After any requests from the empty
  store, the returned samples are the most recent accepted ones in the order of their
  arrival.
\<close>

theorem query_idempotent:
  assumes "reqMethod req = ''GET''" and "reqPath req = ''/api/iq-data''"
  shows "respStatus (serveHTTP st req) = 200
    \<and> respBody (serveHTTP st req) = JSONSamples st
    \<and> iqStore (serveHTTP st req) = st
    \<and> serveHTTP (iqStore (serveHTTP st req)) req = serveHTTP st req
    \<and> respBody (serveHTTP (storeAfter [] reqs) req) =
        JSONSamples (drop (length (concat (map accepted reqs)) - maxDataPoints)
                       (concat (map accepted reqs)))"
proof -
  have keep: "iqStore (serveHTTP st req) = st"
    using assms by (simp add: iqStore_serveHTTP)
  have "storeAfter [] reqs =
      drop (length ([] @ concat (map accepted reqs)) - maxDataPoints)
        ([] @ concat (map accepted reqs))"
    by (rule storeAfter_eq) simp
  then have "respBody (serveHTTP (storeAfter [] reqs) req) =
      JSONSamples (drop (length (concat (map accepted reqs)) - maxDataPoints)
                     (concat (map accepted reqs)))"
    using assms by (simp add: respBody_serveHTTP_get)
  with keep show ?thesis
    using assms by (simp add: respStatus_serveHTTP_get respBody_serveHTTP_get)
qed

theorem query_idempotent_witness:
  "reqMethod getIQData = ''GET'' \<and> reqPath getIQData = ''/api/iq-data''
   \<and> respStatus (serveHTTP [\<lparr>Time = 1, Real = 2, Imaginary = 3\<rparr>] getIQData) = 200
   \<and> respBody (serveHTTP [\<lparr>Time = 1, Real = 2, Imaginary = 3\<rparr>] getIQData) =
       JSONSamples [\<lparr>Time = 1, Real = 2, Imaginary = 3\<rparr>]
   \<and> iqStore (serveHTTP [\<lparr>Time = 1, Real = 2, Imaginary = 3\<rparr>] getIQData) =
       [\<lparr>Time = 1, Real = 2, Imaginary = 3\<rparr>]
   \<and> serveHTTP (iqStore (serveHTTP [\<lparr>Time = 1, Real = 2, Imaginary = 3\<rparr>] getIQData)) getIQData =
       serveHTTP [\<lparr>Time = 1, Real = 2, Imaginary = 3\<rparr>] getIQData
   \<and> respBody (serveHTTP
         (storeAfter [] [postWebhook (Some (JArray [JObject [], JNull])), getIQData]) getIQData) =
       JSONSamples [\<lparr>Time = 0, Real = 0, Imaginary = 0\<rparr>, \<lparr>Time = 0, Real = 0, Imaginary = 0\<rparr>]"
proof -
  have m: "reqMethod getIQData = ''GET''" and p: "reqPath getIQData = ''/api/iq-data''"
    by (simp_all add: getIQData_def)
  have a: "concat (map accepted [postWebhook (Some (JArray [JObject [], JNull])), getIQData]) =
      [\<lparr>Time = 0, Real = 0, Imaginary = 0\<rparr>, \<lparr>Time = 0, Real = 0, Imaginary = 0\<rparr>]"
    by (simp add: accepted_def getIQData_def zeroIQData_def)
  from query_idempotent [OF m p, of "[\<lparr>Time = 1, Real = 2, Imaginary = 3\<rparr>]"
      "[postWebhook (Some (JArray [JObject [], JNull])), getIQData]"] m p
  show ?thesis
    unfolding a by (simp add: maxDataPoints_def)
qed

text \<open>
  C8. Preflight. A request with method \<^verbatim>\<open>OPTIONS\<close> whose target is not \<^verbatim>\<open>*\<close>,
  whatever its path and body, is answered with status 204, no body and exactly the four
  CORS headers (the origin header holds \<^verbatim>\<open>*\<close>, its second setting); the store is as it
  was. The middleware's result does not depend on the handlers after it (\<open>next\<close>): they
  are not run.
\<close>

theorem options_preflight:
  assumes "reqMethod req = ''OPTIONS''" and "reqPath req \<noteq> ''*''"
  shows "serveHTTP st req =
      \<lparr>respStatus = 204,
       respHeader = [''Access-Control-Allow-Origin'' \<mapsto> ''*'',
                     ''Access-Control-Allow-Methods'' \<mapsto> ''POST, GET, OPTIONS'',
                     ''Access-Control-Allow-Headers'' \<mapsto> ''Content-Type, Authorization'',
                     ''Access-Control-Allow-Credentials'' \<mapsto> ''true''],
       respBody = NoBody,
       iqStore = st\<rparr>
    \<and> cors next req s = cors next' req s"
  using assms
  by (simp add: serveHTTP_def handleHTTPRequest_def cors_def headerSet_def abortWithStatus_def
      Let_def)

theorem options_preflight_witness:
  "reqMethod \<lparr>reqMethod = ''OPTIONS'', reqPath = ''/webhook'', reqBody = Some (JArray [JObject []])\<rparr> = ''OPTIONS''
   \<and> reqPath \<lparr>reqMethod = ''OPTIONS'', reqPath = ''/webhook'', reqBody = Some (JArray [JObject []])\<rparr> \<noteq> ''*''
   \<and> serveHTTP [] \<lparr>reqMethod = ''OPTIONS'', reqPath = ''/webhook'', reqBody = Some (JArray [JObject []])\<rparr> =
      \<lparr>respStatus = 204,
       respHeader = [''Access-Control-Allow-Origin'' \<mapsto> ''*'',
                     ''Access-Control-Allow-Methods'' \<mapsto> ''POST, GET, OPTIONS'',
                     ''Access-Control-Allow-Headers'' \<mapsto> ''Content-Type, Authorization'',
                     ''Access-Control-Allow-Credentials'' \<mapsto> ''true''],
       respBody = NoBody,
       iqStore = []\<rparr>"
  using options_preflight
    [of "\<lparr>reqMethod = ''OPTIONS'', reqPath = ''/webhook'', reqBody = Some (JArray [JObject []])\<rparr>" "[]"]
  by simp

text \<open>
  The request \<^verbatim>\<open>OPTIONS *\<close> is answered by the server itself: status 200, not 204, and
  none of the CORS headers, since the middleware does not run.
\<close>

theorem options_asterisk_counterexample:
  "reqMethod \<lparr>reqMethod = ''OPTIONS'', reqPath = ''*'', reqBody = None\<rparr> = ''OPTIONS''
   \<and> respStatus (serveHTTP [] \<lparr>reqMethod = ''OPTIONS'', reqPath = ''*'', reqBody = None\<rparr>) = 200
   \<and> respStatus (serveHTTP [] \<lparr>reqMethod = ''OPTIONS'', reqPath = ''*'', reqBody = None\<rparr>) \<noteq> 204
   \<and> respHeader (serveHTTP [] \<lparr>reqMethod = ''OPTIONS'', reqPath = ''*'', reqBody = None\<rparr>)
        ''Access-Control-Allow-Origin'' = None
   \<and> respHeader (serveHTTP [] \<lparr>reqMethod = ''OPTIONS'', reqPath = ''*'', reqBody = None\<rparr>)
        ''Access-Control-Allow-Methods'' = None
   \<and> respHeader (serveHTTP [] \<lparr>reqMethod = ''OPTIONS'', reqPath = ''*'', reqBody = None\<rparr>)
        ''Access-Control-Allow-Headers'' = None
   \<and> respHeader (serveHTTP [] \<lparr>reqMethod = ''OPTIONS'', reqPath = ''*'', reqBody = None\<rparr>)
        ''Access-Control-Allow-Credentials'' = None"
  by (simp add: serveHTTP_def globalOptionsHandler_def headerSet_def)

text \<open>
  C10. Absent fields. When the body of a \<^verbatim>\<open>POST /webhook\<close> is an array of objects in
  which every member that names one of the three fields holds a number, and the body is
  nested no deeper than \<open>maxNestingDepth\<close> levels in all, the body binds, one sample
  per object; the response has status 200 and body \<^verbatim>\<open>{"status": "received"}\<close>; the batch
  is appended to the store; and in each sample every field that its object does not
  mention is 0. The empty object gives the all-zero sample.
\<close>

theorem missing_fields_default:
  assumes "list_all sampleObject objs" and "depth (JArray objs) \<le> maxNestingDepth"
  shows "\<exists>batch. ShouldBindJSON (Some (JArray objs)) = Inr batch
      \<and> length batch = length objs
      \<and> (\<forall>i<length objs. \<forall>f. \<not> mentions f (objs ! i) \<longrightarrow> getField f (batch ! i) = 0)
      \<and> respStatus (serveHTTP st (postWebhook (Some (JArray objs)))) = 200
      \<and> respBody (serveHTTP st (postWebhook (Some (JArray objs)))) =
          JSONMap [(''status'', ''received'')]
      \<and> iqStore (serveHTTP st (postWebhook (Some (JArray objs)))) =
          drop (length (st @ batch) - maxDataPoints) (st @ batch)"
proof -
  from decodeSlice_ok [OF assms(1)] obtain batch where b: "decodeSlice objs = Inr batch"
    "length batch = length objs"
    "\<forall>i<length objs. \<forall>f. \<not> mentions f (objs ! i) \<longrightarrow> getField f (batch ! i) = 0"
    by blast
  have bind: "ShouldBindJSON (Some (JArray objs)) = Inr batch"
    unfolding ShouldBindJSON_shallow [OF assms(2)] using b(1) by simp
  have "respStatus (serveHTTP st (postWebhook (Some (JArray objs)))) = 200"
    unfolding respStatus_serveHTTP_post bind by simp
  moreover have "respBody (serveHTTP st (postWebhook (Some (JArray objs)))) =
          JSONMap [(''status'', ''received'')]"
    unfolding respBody_serveHTTP_post bind by simp
  moreover have "iqStore (serveHTTP st (postWebhook (Some (JArray objs)))) =
          drop (length (st @ batch) - maxDataPoints) (st @ batch)"
    unfolding iqStore_serveHTTP_post bind by simp
  ultimately show ?thesis using bind b(2,3) by blast
qed

theorem missing_fields_default_witness:
  "list_all sampleObject [JObject [], JObject [(''time'', JNumber (Some 5))]]
   \<and> depth (JArray [JObject [], JObject [(''time'', JNumber (Some 5))]]) \<le> maxNestingDepth
   \<and> (\<exists>batch. ShouldBindJSON (Some (JArray [JObject [], JObject [(''time'', JNumber (Some 5))]])) =
        Inr batch
      \<and> length batch = length [JObject [], JObject [(''time'', JNumber (Some 5))]]
      \<and> (\<forall>i<length [JObject [], JObject [(''time'', JNumber (Some 5))]].
            \<forall>f. \<not> mentions f ([JObject [], JObject [(''time'', JNumber (Some 5))]] ! i) \<longrightarrow>
              getField f (batch ! i) = 0)
      \<and> respStatus (serveHTTP []
            (postWebhook (Some (JArray [JObject [], JObject [(''time'', JNumber (Some 5))]])))) = 200
      \<and> respBody (serveHTTP []
            (postWebhook (Some (JArray [JObject [], JObject [(''time'', JNumber (Some 5))]])))) =
          JSONMap [(''status'', ''received'')]
      \<and> iqStore (serveHTTP []
            (postWebhook (Some (JArray [JObject [], JObject [(''time'', JNumber (Some 5))]])))) =
          drop (length ([] @ batch) - maxDataPoints) ([] @ batch))
   \<and> iqStore (serveHTTP []
         (postWebhook (Some (JArray [JObject [], JObject [(''time'', JNumber (Some 5))]])))) =
       [\<lparr>Time = 0, Real = 0, Imaginary = 0\<rparr>, \<lparr>Time = 5, Real = 0, Imaginary = 0\<rparr>]"
proof -
  have t: "fieldOf ''time'' = Some FTime"
    by (simp add: fieldOf_def toLower_def)
  have h: "list_all sampleObject [JObject [], JObject [(''time'', JNumber (Some 5))]]"
    by (simp add: t)
  have d: "depth (JArray [JObject [], JObject [(''time'', JNumber (Some 5))]]) \<le> maxNestingDepth"
    by simp
  have v: "iqStore (serveHTTP []
         (postWebhook (Some (JArray [JObject [], JObject [(''time'', JNumber (Some 5))]])))) =
       [\<lparr>Time = 0, Real = 0, Imaginary = 0\<rparr>, \<lparr>Time = 5, Real = 0, Imaginary = 0\<rparr>]"
    by (simp add: iqStore_serveHTTP_post t zeroIQData_def maxDataPoints_def)
  from h d missing_fields_default [OF h d, of "[]"] v
  show ?thesis by (intro conjI)
qed

text \<open>
  An array of one object that mentions none of the three fields, yet is rejected: under
  the key \<^verbatim>\<open>x\<close>, which names no field, sit 9999 arrays one inside the other, so that with
  the object and the outer array 10001 levels are open. The answer is 400 and nothing is
  appended.
\<close>

theorem deep_body_counterexample:
  "list_all sampleObject [JObject [(''x'', nest 9998)]]
   \<and> \<not> mentions FTime (JObject [(''x'', nest 9998)])
   \<and> \<not> mentions FReal (JObject [(''x'', nest 9998)])
   \<and> \<not> mentions FImaginary (JObject [(''x'', nest 9998)])
   \<and> ShouldBindJSON (Some (JArray [JObject [(''x'', nest 9998)]])) = Inl SyntaxError
   \<and> respStatus (serveHTTP [] (postWebhook (Some (JArray [JObject [(''x'', nest 9998)]])))) = 400
   \<and> respBody (serveHTTP [] (postWebhook (Some (JArray [JObject [(''x'', nest 9998)]])))) =
       JSONMap [(''error'', ''Invalid JSON format'')]
   \<and> iqStore (serveHTTP [] (postWebhook (Some (JArray [JObject [(''x'', nest 9998)]])))) = []"
proof -
  have x: "fieldOf ''x'' = None"
    by (simp add: fieldOf_def toLower_def)
  have bind: "ShouldBindJSON (Some (JArray [JObject [(''x'', nest 9998)]])) = Inl SyntaxError"
    by (simp add: depth_nest)
  show ?thesis
    unfolding respStatus_serveHTTP_post respBody_serveHTTP_post iqStore_serveHTTP_post bind
    by (simp add: x)
qed

end
